theory Spec2Isabelle
  imports Main
begin

section \<open>Device configuration model of vfkit (pkg/config/virtio.go)\<close>

text \<open>
  The Go file describes seven kinds of virtual devices. Each kind has a method
  \<open>FromOptions\<close>, which fills the fields of the device from a sequence of
  \<open>key[=value]\<close> options, and a method \<open>ToCmdLine\<close>, which prints the device as
  the two command line tokens \<open>--device <kind>,<options>\<close>. The function
  \<open>deviceFromCmdLine\<close> cuts a device description at its commas, picks the device
  kind from the first piece and hands the remaining pieces to \<open>FromOptions\<close>.

  Conventions of the embedding:
  \<^item> a Go \<open>string\<close> is a \<open>string\<close> (a list of bytes), a Go struct a record;
  \<^item> a method with a pointer receiver that returns \<open>error\<close> becomes a function
    that returns the receiver as the method leaves it, together with
    \<open>error option\<close> (\<open>None\<close> is Go's \<open>nil\<close> error). The receiver is returned
    on the error paths too, since the Go method has already written to it;
  \<^item> a function returning \<open>([]string, error)\<close> returns a pair of the token list
    and an \<open>error option\<close>; a \<open>nil\<close> slice and an empty slice are both \<open>[]\<close>;
  \<^item> Go's \<open>int\<close>, \<open>uint\<close> and \<open>uintptr\<close> are 64 bits wide, as on every
    platform vfkit runs on. A \<open>uint\<close> is a \<open>nat\<close>, with \<open>mod 2 ^ 64\<close> written
    out where an \<open>int\<close> is converted.
\<close>

subsection \<open>Errors\<close>

text \<open>
  The errors of the file are built by \<open>fmt.Errorf\<close>: they carry a message and
  nothing else. Two library functions return errors of their own type:
  \<open>strconv.Atoi\<close> a \<open>*strconv.NumError\<close> (function name, offending text and
  \<open>ErrSyntax\<close> or \<open>ErrRange\<close>), \<open>net.ParseMAC\<close> a \<open>*net.AddrError\<close> (a
  message and the offending text).
\<close>

datatype num_err = ErrSyntax | ErrRange

datatype error =
    Errorf string
  | NumError string string num_err
  | AddrError string string

subsection \<open>Library functions on strings\<close>

text \<open>
  \<open>strings.Index\<close>, \<open>strings.Count\<close>, \<open>strings.Split\<close> and \<open>strings.SplitN\<close>,
  for a separator of one byte (the file only separates at \<open>","\<close> and \<open>"="\<close>).
  \<open>genSplit\<close> is the loop of the Go library: it cuts at the separator at most
  \<open>n\<close> times and the last piece is what remains.
\<close>

fun Index :: "string \<Rightarrow> char \<Rightarrow> nat option" where
  "Index [] sep = None"
| "Index (c # s) sep = (if c = sep then Some 0 else map_option Suc (Index s sep))"

fun Count :: "string \<Rightarrow> char \<Rightarrow> nat" where
  "Count [] sep = 0"
| "Count (c # s) sep = (if c = sep then Suc (Count s sep) else Count s sep)"

fun genSplit :: "string \<Rightarrow> char \<Rightarrow> nat \<Rightarrow> string list" where
  "genSplit s sep 0 = [s]"
| "genSplit s sep (Suc n) =
     (case Index s sep of
        None \<Rightarrow> [s]
      | Some m \<Rightarrow> take m s # genSplit (drop (m + 1) s) sep n)"

definition Split :: "string \<Rightarrow> char \<Rightarrow> string list" where
  "Split s sep = genSplit s sep (Count s sep)"

text \<open>
  \<open>SplitN s sep n\<close> for \<open>n > 0\<close> returns at most \<open>n\<close> pieces, and at most
  \<open>len(s) + 1\<close>; \<open>n = 0\<close> returns \<open>nil\<close>.
\<close>

definition SplitN :: "string \<Rightarrow> char \<Rightarrow> nat \<Rightarrow> string list" where
  "SplitN s sep n = (if n = 0 then [] else genSplit s sep (min n (length s + 1) - 1))"

subsection \<open>Options\<close>

record option' =
  key :: string
  "value" :: string

text \<open>
  \<open>strToOption\<close> reads \<open>splitStr[0]\<close> without a check: \<open>SplitN\<close> with
  \<open>n = 2\<close> never returns an empty slice (lemma \<open>SplitN_not_Nil\<close>), so the index
  is in range.
\<close>

definition strToOption :: "string \<Rightarrow> option'" where
  "strToOption str =
     (let splitStr = SplitN str (CHR ''='') 2;
          opt = \<lparr>key = splitStr ! 0, value = []\<rparr>
      in if length splitStr > 1 then opt\<lparr>value := splitStr ! 1\<rparr> else opt)"

fun strvToOptions :: "string list \<Rightarrow> option' list" where
  "strvToOptions [] = []"
| "strvToOptions (opt # opts) =
     (if length opt = 0 then strvToOptions opts
      else strToOption opt # strvToOptions opts)"

subsection \<open>Library functions on numbers and addresses\<close>

text \<open>
  \<open>strconv.Atoi\<close>: an optional sign, then decimal digits only, at least one.
  The Go function has a fast path for short texts and otherwise calls
  \<open>ParseInt(s, 10, 0)\<close>, which reads the digits with \<open>ParseUint\<close>; both paths
  give the same result, and the model follows the second. \<open>ParseUint_loop\<close> is
  the digit loop of \<open>ParseUint\<close>: a byte that is no digit is a syntax error, a
  value that leaves 64 bits is a range error, whichever comes first. The error
  names \<open>Atoi\<close> and the whole text.
\<close>

definition maxUint64 :: nat where
  "maxUint64 = 2 ^ 64 - 1"

fun ParseUint_loop :: "string \<Rightarrow> nat \<Rightarrow> num_err + nat" where
  "ParseUint_loop [] n = Inr n"
| "ParseUint_loop (c # s) n =
     (let d = (of_char c :: nat) in
      if d < 48 \<or> 57 < d then Inl ErrSyntax
      else if n \<ge> maxUint64 div 10 + 1 then Inl ErrRange
      else let n1 = n * 10 + (d - 48) in
           if n1 > maxUint64 then Inl ErrRange else ParseUint_loop s n1)"

definition Atoi :: "string \<Rightarrow> error + int" where
  "Atoi s0 =
     (if s0 = [] then Inl (NumError ''Atoi'' s0 ErrSyntax)
      else
        let neg = (hd s0 = CHR ''-'');
            s = (if hd s0 = CHR ''+'' \<or> hd s0 = CHR ''-'' then tl s0 else s0)
        in if s = [] then Inl (NumError ''Atoi'' s0 ErrSyntax)
           else case ParseUint_loop s 0 of
                  Inl e \<Rightarrow> Inl (NumError ''Atoi'' s0 e)
                | Inr un \<Rightarrow>
                    if \<not> neg \<and> un \<ge> 2 ^ 63 then Inl (NumError ''Atoi'' s0 ErrRange)
                    else if neg \<and> un > 2 ^ 63 then Inl (NumError ''Atoi'' s0 ErrRange)
                    else Inr (if neg then - int un else int un))"

text \<open>
  The number that a text of decimal digits stands for, to say what \<open>Atoi\<close>
  returns.
\<close>

definition decimal :: "string \<Rightarrow> nat" where
  "decimal ds = foldl (\<lambda>n c. n * 10 + (of_char c - 48)) 0 ds"

text \<open>The verb \<open>%d\<close> of \<open>fmt\<close> on an unsigned number: its decimal digits.\<close>

function fmt_d :: "nat \<Rightarrow> string" where
  "fmt_d n =
     (if n < 10 then [''0123456789'' ! n]
      else fmt_d (n div 10) @ [''0123456789'' ! (n mod 10)])"
  by pat_completeness auto
termination
  by (relation "measure id") auto

declare fmt_d.simps [simp del]

text \<open>
  \<open>net.HardwareAddr\<close> is a slice of bytes (numbers below 256 here); its
  \<open>String\<close> method prints each byte as two lower case hexadecimal digits, with
  colons between the bytes.
\<close>

type_synonym HardwareAddr = "nat list"

definition hexDigit :: string where
  "hexDigit = ''0123456789abcdef''"

fun HardwareAddr_String :: "HardwareAddr \<Rightarrow> string" where
  "HardwareAddr_String [] = []"
| "HardwareAddr_String [b] = [hexDigit ! (b div 16), hexDigit ! (b mod 16)]"
| "HardwareAddr_String (b # a) =
     [hexDigit ! (b div 16), hexDigit ! (b mod 16), CHR '':''] @ HardwareAddr_String a"

text \<open>
  \<open>net.ParseMAC\<close> accepts 6, 8 or 20 bytes, written as pairs of hexadecimal
  digits separated by colons or by hyphens (the separator is the third byte of
  the text and every separator has to be the same), or as groups of four digits
  separated by dots. \<open>xtoi2\<close> reads two hexadecimal digits and checks that the
  byte after them, when there is one, is the separator \<open>e\<close>. The length checks
  of \<open>ParseMAC\<close> leave at least two bytes at every call of \<open>xtoi2\<close>; a shorter
  text, which the Go function would not survive, is refused here.
\<close>

definition hexVal :: "char \<Rightarrow> nat option" where
  "hexVal c =
     (let d = (of_char c :: nat) in
      if 48 \<le> d \<and> d \<le> 57 then Some (d - 48)
      else if 97 \<le> d \<and> d \<le> 102 then Some (d - 97 + 10)
      else if 65 \<le> d \<and> d \<le> 70 then Some (d - 65 + 10)
      else None)"

definition xtoi2 :: "string \<Rightarrow> char \<Rightarrow> nat option" where
  "xtoi2 s e =
     (if length s > 2 \<and> s ! 2 \<noteq> e then None
      else if length s < 2 then None
      else case (hexVal (s ! 0), hexVal (s ! 1)) of
             (Some h, Some l) \<Rightarrow> Some (h * 16 + l)
           | _ \<Rightarrow> None)"

fun ParseMAC_pairs :: "nat \<Rightarrow> string \<Rightarrow> char \<Rightarrow> HardwareAddr option" where
  "ParseMAC_pairs 0 s e = Some []"
| "ParseMAC_pairs (Suc n) s e =
     (case xtoi2 s e of
        None \<Rightarrow> None
      | Some b \<Rightarrow> map_option ((#) b) (ParseMAC_pairs n (drop 3 s) e))"

fun ParseMAC_quads :: "nat \<Rightarrow> string \<Rightarrow> char \<Rightarrow> HardwareAddr option" where
  "ParseMAC_quads 0 s e = Some []"
| "ParseMAC_quads (Suc n) s e =
     (case xtoi2 (take 2 s) (CHR 0x00) of
        None \<Rightarrow> None
      | Some b1 \<Rightarrow>
          (case xtoi2 (drop 2 s) e of
             None \<Rightarrow> None
           | Some b2 \<Rightarrow> map_option (\<lambda>hw. b1 # b2 # hw) (ParseMAC_quads n (drop 5 s) e)))"

definition ParseMAC :: "string \<Rightarrow> error + HardwareAddr" where
  "ParseMAC s =
     (let err = Inl (AddrError ''invalid MAC address'' s) in
      if length s < 14 then err
      else if s ! 2 = CHR '':'' \<or> s ! 2 = CHR ''-'' then
        (if (length s + 1) mod 3 \<noteq> 0 then err
         else let n = (length s + 1) div 3 in
              if n \<noteq> 6 \<and> n \<noteq> 8 \<and> n \<noteq> 20 then err
              else case ParseMAC_pairs n s (s ! 2) of None \<Rightarrow> err | Some hw \<Rightarrow> Inr hw)
      else if s ! 4 = CHR ''.'' then
        (if (length s + 1) mod 5 \<noteq> 0 then err
         else let n = 2 * (length s + 1) div 5 in
              if n \<noteq> 6 \<and> n \<noteq> 8 \<and> n \<noteq> 20 then err
              else case ParseMAC_quads (n div 2) s (s ! 4) of None \<Rightarrow> err | Some hw \<Rightarrow> Inr hw)
      else err)"

text \<open>
  \<open>*os.File\<close>: only the descriptor matters here. \<open>os.NewFile\<close> converts the
  \<open>uintptr\<close> to \<open>int\<close> and returns \<open>nil\<close> when that is negative, that is when
  the top bit is set; it does not look at the descriptor otherwise.
\<close>

datatype File = File (Fd: nat)

definition NewFile :: "nat \<Rightarrow> string \<Rightarrow> File option" where
  "NewFile fd name = (if fd \<ge> 2 ^ 63 then None else Some (File fd))"

text \<open>The conversions \<open>uint(i)\<close> and \<open>uintptr(i)\<close> of an \<open>int\<close>.\<close>

definition uint :: "int \<Rightarrow> nat" where
  "uint i = nat (i mod 2 ^ 64)"

subsection \<open>The devices\<close>

record VirtioVsock =
  Port :: nat
  SocketURL :: string
  Listen :: bool

record StorageConfig =
  DevName :: string
  ImagePath :: string
  ReadOnly :: bool

text \<open>
  \<open>VirtioBlk\<close> embeds \<open>StorageConfig\<close>: its fields and methods are fields and
  methods of the block device, which is what a record extension gives.
  \<open>USBMassStorage\<close> embeds it and adds nothing.
\<close>

record VirtioBlk = StorageConfig +
  DeviceIdentifier :: string

type_synonym USBMassStorage = StorageConfig

record VirtioFs =
  SharedDir :: string
  MountTag :: string

datatype VirtioRng = VirtioRng

record VirtioNet =
  Nat :: bool
  MacAddress :: HardwareAddr
  Socket :: "File option"

record VirtioSerial =
  LogFile :: string

text \<open>The interface \<open>VirtioDevice\<close>: the seven types that implement it.\<close>

datatype VirtioDevice =
    DevVirtioBlk VirtioBlk
  | DevVirtioFs VirtioFs
  | DevVirtioNet VirtioNet
  | DevVirtioRng VirtioRng
  | DevVirtioSerial VirtioSerial
  | DevVirtioVsock VirtioVsock
  | DevUSBMassStorage USBMassStorage

subsection \<open>virtio-serial\<close>

definition VirtioSerialNew :: "string \<Rightarrow> VirtioDevice" where
  "VirtioSerialNew logFilePath = DevVirtioSerial \<lparr>LogFile = logFilePath\<rparr>"

definition VirtioSerial_ToCmdLine :: "VirtioSerial \<Rightarrow> string list \<times> error option" where
  "VirtioSerial_ToCmdLine dev =
     (if LogFile dev = [] then
        ([], Some (Errorf ''virtio-serial needs the path to the log file''))
      else ([''--device'', ''virtio-serial,logFilePath='' @ LogFile dev], None))"

fun VirtioSerial_FromOptions ::
  "VirtioSerial \<Rightarrow> option' list \<Rightarrow> VirtioSerial \<times> error option" where
  "VirtioSerial_FromOptions dev [] = (dev, None)"
| "VirtioSerial_FromOptions dev (opt # options) =
     (if key opt = ''logFilePath'' then
        VirtioSerial_FromOptions (dev\<lparr>LogFile := value opt\<rparr>) options
      else (dev, Some (Errorf (''Unknown option for virtio-serial devices: '' @ key opt))))"

subsection \<open>virtio-net\<close>

definition VirtioNetNew :: "string \<Rightarrow> error + VirtioNet" where
  "VirtioNetNew macAddress =
     (if macAddress \<noteq> [] then
        (case ParseMAC macAddress of
           Inl err \<Rightarrow> Inl err
         | Inr hwAddr \<Rightarrow> Inr \<lparr>Nat = True, MacAddress = hwAddr, Socket = None\<rparr>)
      else Inr \<lparr>Nat = True, MacAddress = [], Socket = None\<rparr>)"

definition SetSocket :: "VirtioNet \<Rightarrow> File option \<Rightarrow> VirtioNet" where
  "SetSocket dev file = dev\<lparr>Socket := file, Nat := False\<rparr>"

definition validate :: "VirtioNet \<Rightarrow> error option" where
  "validate dev =
     (if Nat dev \<and> Socket dev \<noteq> None then
        Some (Errorf '''nat' and 'fd' cannot be set at the same time'')
      else if \<not> Nat dev \<and> Socket dev = None then
        Some (Errorf ''One of 'nat' or 'fd' must be set'')
      else None)"

text \<open>
  In \<open>ToCmdLine\<close> the descriptor is printed only after \<open>validate\<close> has found a
  socket; \<open>Fd\<close> of a \<open>nil\<close> file is all ones.
\<close>

definition VirtioNet_ToCmdLine :: "VirtioNet \<Rightarrow> string list \<times> error option" where
  "VirtioNet_ToCmdLine dev =
     (case validate dev of
        Some err \<Rightarrow> ([], Some err)
      | None \<Rightarrow>
          (let builder = ''virtio-net'';
               builder = (if Nat dev then builder @ '',nat''
                          else builder @ '',fd='' @
                            fmt_d (case Socket dev of None \<Rightarrow> maxUint64 | Some f \<Rightarrow> Fd f));
               builder = (if length (MacAddress dev) \<noteq> 0
                          then builder @ '',mac='' @ HardwareAddr_String (MacAddress dev)
                          else builder)
           in ([''--device'', builder], None)))"

fun VirtioNet_options :: "VirtioNet \<Rightarrow> option' list \<Rightarrow> VirtioNet \<times> error option" where
  "VirtioNet_options dev [] = (dev, None)"
| "VirtioNet_options dev (opt # options) =
     (if key opt = ''nat'' then
        (if value opt \<noteq> [] then
           (dev, Some (Errorf (''Unexpected value for virtio-net 'nat' option: '' @ value opt)))
         else VirtioNet_options (dev\<lparr>Nat := True\<rparr>) options)
      else if key opt = ''mac'' then
        (case ParseMAC (value opt) of
           Inl err \<Rightarrow> (dev, Some err)
         | Inr macAddress \<Rightarrow> VirtioNet_options (dev\<lparr>MacAddress := macAddress\<rparr>) options)
      else if key opt = ''fd'' then
        (case Atoi (value opt) of
           Inl err \<Rightarrow> (dev, Some err)
         | Inr fd \<Rightarrow>
             VirtioNet_options
               (dev\<lparr>Socket := NewFile (uint fd) ''vfkit virtio-net socket''\<rparr>) options)
      else (dev, Some (Errorf (''Unknown option for virtio-net devices: '' @ key opt))))"

text \<open>\<open>FromOptions\<close> is the loop over the options, then \<open>validate\<close>.\<close>

definition VirtioNet_FromOptions :: "VirtioNet \<Rightarrow> option' list \<Rightarrow> VirtioNet \<times> error option" where
  "VirtioNet_FromOptions dev options =
     (case VirtioNet_options dev options of
        (dev', Some err) \<Rightarrow> (dev', Some err)
      | (dev', None) \<Rightarrow> (dev', validate dev'))"

subsection \<open>virtio-rng\<close>

definition VirtioRngNew :: VirtioDevice where
  "VirtioRngNew = DevVirtioRng VirtioRng"

definition VirtioRng_ToCmdLine :: "VirtioRng \<Rightarrow> string list \<times> error option" where
  "VirtioRng_ToCmdLine dev = ([''--device'', ''virtio-rng''], None)"

text \<open>
  The message of \<open>VirtioRng.FromOptions\<close> prints the whole slice of options
  with the verb \<open>%s\<close>: \<open>fmt\<close> writes a slice as \<open>[e1 e2]\<close> and a struct as
  \<open>{field1 field2}\<close>.
\<close>

fun fmt_fields :: "option' list \<Rightarrow> string" where
  "fmt_fields [] = []"
| "fmt_fields [opt] = ''{'' @ key opt @ '' '' @ value opt @ ''}''"
| "fmt_fields (opt # options) =
     ''{'' @ key opt @ '' '' @ value opt @ ''} '' @ fmt_fields options"

definition fmt_options :: "option' list \<Rightarrow> string" where
  "fmt_options options = ''['' @ fmt_fields options @ '']''"

definition VirtioRng_FromOptions :: "VirtioRng \<Rightarrow> option' list \<Rightarrow> VirtioRng \<times> error option" where
  "VirtioRng_FromOptions dev options =
     (if length options \<noteq> 0 then
        (dev, Some (Errorf (''Unknown options for virtio-rng devices: '' @ fmt_options options)))
      else (dev, None))"

subsection \<open>Storage configuration\<close>

definition StorageConfig_ToCmdLine ::
  "'a StorageConfig_scheme \<Rightarrow> string list \<times> error option" where
  "StorageConfig_ToCmdLine config =
     (if ImagePath config = [] then
        ([], Some (Errorf (DevName config @ '' devices need the path to a disk image'')))
      else ([''--device'', DevName config @ '',path='' @ ImagePath config], None))"

fun StorageConfig_FromOptions ::
  "'a StorageConfig_scheme \<Rightarrow> option' list \<Rightarrow> 'a StorageConfig_scheme \<times> error option" where
  "StorageConfig_FromOptions config [] = (config, None)"
| "StorageConfig_FromOptions config (opt # options) =
     (if key opt = ''path'' then
        StorageConfig_FromOptions (config\<lparr>ImagePath := value opt\<rparr>) options
      else (config, Some (Errorf (''Unknown option for '' @ DevName config @ '' devices: ''
                                   @ key opt))))"

subsection \<open>virtio-blk\<close>

definition virtioBlkNewEmpty :: VirtioBlk where
  "virtioBlkNewEmpty =
     \<lparr>DevName = ''virtio-blk'', ImagePath = [], ReadOnly = False, DeviceIdentifier = []\<rparr>"

definition VirtioBlkNew :: "string \<Rightarrow> VirtioBlk" where
  "VirtioBlkNew imagePath = virtioBlkNewEmpty\<lparr>ImagePath := imagePath\<rparr>"

definition SetDeviceIdentifier :: "VirtioBlk \<Rightarrow> string \<Rightarrow> VirtioBlk" where
  "SetDeviceIdentifier dev devId = dev\<lparr>DeviceIdentifier := devId\<rparr>"

text \<open>
  The loop of \<open>VirtioBlk.FromOptions\<close> takes the \<open>deviceId\<close> options and
  appends every other option to \<open>unhandledOpts\<close>, which goes to the storage
  configuration afterwards.
\<close>

fun VirtioBlk_options ::
  "VirtioBlk \<Rightarrow> option' list \<Rightarrow> option' list \<Rightarrow> VirtioBlk \<times> option' list" where
  "VirtioBlk_options dev unhandledOpts [] = (dev, unhandledOpts)"
| "VirtioBlk_options dev unhandledOpts (opt # options) =
     (if key opt = ''deviceId'' then
        VirtioBlk_options (dev\<lparr>DeviceIdentifier := value opt\<rparr>) unhandledOpts options
      else VirtioBlk_options dev (unhandledOpts @ [opt]) options)"

definition VirtioBlk_FromOptions :: "VirtioBlk \<Rightarrow> option' list \<Rightarrow> VirtioBlk \<times> error option" where
  "VirtioBlk_FromOptions dev options =
     (case VirtioBlk_options dev [] options of
        (dev', unhandledOpts) \<Rightarrow> StorageConfig_FromOptions dev' unhandledOpts)"

definition VirtioBlk_ToCmdLine :: "VirtioBlk \<Rightarrow> string list \<times> error option" where
  "VirtioBlk_ToCmdLine dev =
     (case StorageConfig_ToCmdLine dev of
        (cmdLine, Some err) \<Rightarrow> ([], Some err)
      | (cmdLine, None) \<Rightarrow>
          if length cmdLine \<noteq> 2 then
            ([], Some (Errorf ''Unexpected storage config commandline''))
          else if DeviceIdentifier dev \<noteq> [] then
            (cmdLine[1 := cmdLine ! 1 @ '',deviceId='' @ DeviceIdentifier dev], None)
          else (cmdLine, None))"

subsection \<open>virtio-vsock\<close>

definition VirtioVsockNew :: "nat \<Rightarrow> string \<Rightarrow> bool \<Rightarrow> VirtioDevice" where
  "VirtioVsockNew port socketURL listen =
     DevVirtioVsock \<lparr>Port = port, SocketURL = socketURL, Listen = listen\<rparr>"

definition VirtioVsock_ToCmdLine :: "VirtioVsock \<Rightarrow> string list \<times> error option" where
  "VirtioVsock_ToCmdLine dev =
     (if Port dev = 0 \<or> SocketURL dev = [] then
        ([], Some (Errorf ''virtio-vsock needs both a port and a socket URL''))
      else
        let listenStr = (if Listen dev then ''listen'' else ''connect'')
        in ([''--device'',
             ''virtio-vsock,port='' @ fmt_d (Port dev) @ '',socketURL='' @ SocketURL dev
               @ '','' @ listenStr], None))"

fun VirtioVsock_options :: "VirtioVsock \<Rightarrow> option' list \<Rightarrow> VirtioVsock \<times> error option" where
  "VirtioVsock_options dev [] = (dev, None)"
| "VirtioVsock_options dev (opt # options) =
     (if key opt = ''socketURL'' then
        VirtioVsock_options (dev\<lparr>SocketURL := value opt\<rparr>) options
      else if key opt = ''port'' then
        (case Atoi (value opt) of
           Inl err \<Rightarrow> (dev, Some err)
         | Inr port \<Rightarrow> VirtioVsock_options (dev\<lparr>Port := uint port\<rparr>) options)
      else if key opt = ''listen'' then
        VirtioVsock_options (dev\<lparr>Listen := True\<rparr>) options
      else if key opt = ''connect'' then
        VirtioVsock_options (dev\<lparr>Listen := False\<rparr>) options
      else (dev, Some (Errorf (''Unknown option for virtio-vsock devices: '' @ key opt))))"

text \<open>\<open>FromOptions\<close> sets \<open>Listen\<close> first, then runs the loop.\<close>

definition VirtioVsock_FromOptions ::
  "VirtioVsock \<Rightarrow> option' list \<Rightarrow> VirtioVsock \<times> error option" where
  "VirtioVsock_FromOptions dev options = VirtioVsock_options (dev\<lparr>Listen := True\<rparr>) options"

subsection \<open>virtio-fs\<close>

definition VirtioFsNew :: "string \<Rightarrow> string \<Rightarrow> VirtioDevice" where
  "VirtioFsNew sharedDir mountTag = DevVirtioFs \<lparr>SharedDir = sharedDir, MountTag = mountTag\<rparr>"

definition VirtioFs_ToCmdLine :: "VirtioFs \<Rightarrow> string list \<times> error option" where
  "VirtioFs_ToCmdLine dev =
     (if SharedDir dev = [] then
        ([], Some (Errorf ''virtio-fs needs the path to the directory to share''))
      else if MountTag dev \<noteq> [] then
        ([''--device'',
          ''virtio-fs,sharedDir='' @ SharedDir dev @ '',mountTag='' @ MountTag dev], None)
      else ([''--device'', ''virtio-fs,sharedDir='' @ SharedDir dev], None))"

fun VirtioFs_FromOptions :: "VirtioFs \<Rightarrow> option' list \<Rightarrow> VirtioFs \<times> error option" where
  "VirtioFs_FromOptions dev [] = (dev, None)"
| "VirtioFs_FromOptions dev (opt # options) =
     (if key opt = ''sharedDir'' then
        VirtioFs_FromOptions (dev\<lparr>SharedDir := value opt\<rparr>) options
      else if key opt = ''mountTag'' then
        VirtioFs_FromOptions (dev\<lparr>MountTag := value opt\<rparr>) options
      else (dev, Some (Errorf (''Unknown option for virtio-fs devices: '' @ key opt))))"

subsection \<open>usb-mass-storage\<close>

definition usbMassStorageNewEmpty :: USBMassStorage where
  "usbMassStorageNewEmpty =
     \<lparr>DevName = ''usb-mass-storage'', ImagePath = [], ReadOnly = False\<rparr>"

definition USBMassStorageNew :: "string \<Rightarrow> USBMassStorage" where
  "USBMassStorageNew imagePath = usbMassStorageNewEmpty\<lparr>ImagePath := imagePath\<rparr>"

subsection \<open>The interface methods and the dispatcher\<close>

fun FromOptions :: "VirtioDevice \<Rightarrow> option' list \<Rightarrow> VirtioDevice \<times> error option" where
  "FromOptions (DevVirtioBlk dev) options =
     map_prod DevVirtioBlk id (VirtioBlk_FromOptions dev options)"
| "FromOptions (DevVirtioFs dev) options =
     map_prod DevVirtioFs id (VirtioFs_FromOptions dev options)"
| "FromOptions (DevVirtioNet dev) options =
     map_prod DevVirtioNet id (VirtioNet_FromOptions dev options)"
| "FromOptions (DevVirtioRng dev) options =
     map_prod DevVirtioRng id (VirtioRng_FromOptions dev options)"
| "FromOptions (DevVirtioSerial dev) options =
     map_prod DevVirtioSerial id (VirtioSerial_FromOptions dev options)"
| "FromOptions (DevVirtioVsock dev) options =
     map_prod DevVirtioVsock id (VirtioVsock_FromOptions dev options)"
| "FromOptions (DevUSBMassStorage dev) options =
     map_prod DevUSBMassStorage id (StorageConfig_FromOptions dev options)"

fun ToCmdLine :: "VirtioDevice \<Rightarrow> string list \<times> error option" where
  "ToCmdLine (DevVirtioBlk dev) = VirtioBlk_ToCmdLine dev"
| "ToCmdLine (DevVirtioFs dev) = VirtioFs_ToCmdLine dev"
| "ToCmdLine (DevVirtioNet dev) = VirtioNet_ToCmdLine dev"
| "ToCmdLine (DevVirtioRng dev) = VirtioRng_ToCmdLine dev"
| "ToCmdLine (DevVirtioSerial dev) = VirtioSerial_ToCmdLine dev"
| "ToCmdLine (DevVirtioVsock dev) = VirtioVsock_ToCmdLine dev"
| "ToCmdLine (DevUSBMassStorage dev) = StorageConfig_ToCmdLine dev"

text \<open>
  \<open>deviceFromCmdLine\<close> returns either \<open>(nil, err)\<close> or \<open>(dev, nil)\<close>: a sum,
  with \<open>Inl\<close> for the error. \<open>None\<close> for the new device stands for the
  \<open>default\<close> branch of the \<open>switch\<close>, which returns at once. The indices
  \<open>opts[0]\<close> and \<open>opts[1:]\<close> come after the check of the length.
\<close>

definition deviceFromCmdLine :: "string \<Rightarrow> error + VirtioDevice" where
  "deviceFromCmdLine deviceOpts =
     (let opts = Split deviceOpts (CHR '','') in
      if length opts = 0 then Inl (Errorf ''empty option list in command line argument'')
      else
        let dev =
          (if opts ! 0 = ''virtio-blk'' then Some (DevVirtioBlk virtioBlkNewEmpty)
           else if opts ! 0 = ''virtio-fs'' then
             Some (DevVirtioFs \<lparr>SharedDir = [], MountTag = []\<rparr>)
           else if opts ! 0 = ''virtio-net'' then
             Some (DevVirtioNet \<lparr>Nat = False, MacAddress = [], Socket = None\<rparr>)
           else if opts ! 0 = ''virtio-rng'' then Some (DevVirtioRng VirtioRng)
           else if opts ! 0 = ''virtio-serial'' then Some (DevVirtioSerial \<lparr>LogFile = []\<rparr>)
           else if opts ! 0 = ''virtio-vsock'' then
             Some (DevVirtioVsock \<lparr>Port = 0, SocketURL = [], Listen = False\<rparr>)
           else if opts ! 0 = ''usb-mass-storage'' then
             Some (DevUSBMassStorage usbMassStorageNewEmpty)
           else None)
        in case dev of
             None \<Rightarrow> Inl (Errorf (''unknown device type: '' @ opts ! 0))
           | Some dev \<Rightarrow>
               (let parsedOpts = strvToOptions (drop 1 opts) in
                case FromOptions dev parsedOpts of
                  (dev', Some err) \<Rightarrow> Inl err
                | (dev', None) \<Rightarrow> Inr dev'))"

section \<open>Properties\<close>

subsection \<open>The library functions\<close>

lemma Index_None: "Index s sep = None \<longleftrightarrow> sep \<notin> set s"
  by (induction s) auto

lemma Index_append: "sep \<notin> set k \<Longrightarrow> Index (k @ sep # v) sep = Some (length k)"
  by (induction k) auto

lemma Count_none: "sep \<notin> set k \<Longrightarrow> Count k sep = 0"
  by (induction k) auto

lemma Count_append: "sep \<notin> set k \<Longrightarrow> Count (k @ sep # v) sep = Suc (Count v sep)"
  by (induction k) auto

lemma genSplit_not_Nil: "genSplit s sep n \<noteq> []"
  by (cases n) (auto split: option.splits)

lemma SplitN_not_Nil: "0 < n \<Longrightarrow> SplitN s sep n \<noteq> []"
  by (simp add: SplitN_def genSplit_not_Nil)

lemma Split_not_Nil: "Split s sep \<noteq> []"
  by (simp add: Split_def genSplit_not_Nil)

lemma Split_none: "sep \<notin> set k \<Longrightarrow> Split k sep = [k]"
  by (simp add: Split_def Count_none)

lemma Split_append: "sep \<notin> set k \<Longrightarrow> Split (k @ sep # v) sep = k # Split v sep"
  by (simp add: Split_def Count_append Index_append)

text \<open>What \<open>Atoi\<close> accepts and which errors it returns.\<close>

lemma digit_char:
  assumes "48 \<le> (of_char c :: nat)" "(of_char c :: nat) \<le> 57"
  shows "c \<in> set ''0123456789''"
proof -
  have "48 \<le> x \<Longrightarrow> x \<le> 57 \<Longrightarrow> x \<in> {48, 49, 50, 51, 52, 53, 54, 55, 56, 57}" for x :: nat
    unfolding insert_iff empty_iff by presburger
  with assms have "(of_char c :: nat) \<in> {48, 49, 50, 51, 52, 53, 54, 55, 56, 57}"
    by blast
  then have "(of_char c :: nat) \<in> of_char ` set ''0123456789''"
    by simp
  then obtain d where "d \<in> set ''0123456789''" "(of_char c :: nat) = of_char d"
    by blast
  then show ?thesis by simp
qed

lemma ParseUint_loop_digits:
  "ParseUint_loop s n = Inr m \<Longrightarrow> list_all (\<lambda>c. c \<in> set ''0123456789'') s"
proof (induction s arbitrary: n)
  case Nil
  show ?case by simp
next
  case (Cons c s)
  from Cons.prems have d: "48 \<le> (of_char c :: nat)" "(of_char c :: nat) \<le> 57"
    by (auto simp: Let_def split: if_splits)
  from Cons.prems have "ParseUint_loop s (n * 10 + (of_char c - 48)) = Inr m"
    by (auto simp: Let_def split: if_splits)
  from Cons.IH [OF this] digit_char [OF d] show ?case
    by simp
qed

lemma ParseUint_loop_value:
  "n \<le> maxUint64 \<Longrightarrow> ParseUint_loop s n = Inr m \<Longrightarrow>
     m = foldl (\<lambda>n c. n * 10 + (of_char c - 48)) n s \<and> m \<le> maxUint64"
proof (induction s arbitrary: n)
  case Nil
  then show ?case by simp
next
  case (Cons c s)
  from Cons.prems(2) have le: "n * 10 + (of_char c - 48) \<le> maxUint64"
    by (auto simp: Let_def split: if_splits)
  from Cons.prems(2) have "ParseUint_loop s (n * 10 + (of_char c - 48)) = Inr m"
    by (auto simp: Let_def split: if_splits)
  from Cons.IH [OF le this] show ?case
    by simp
qed

lemma Atoi_Inr:
  assumes "Atoi s = Inr n"
  shows "\<exists>ds. ds \<noteq> [] \<and> list_all (\<lambda>c. c \<in> set ''0123456789'') ds
           \<and> ((s = ds \<or> s = CHR ''+'' # ds) \<and> n = int (decimal ds)
                \<or> s = CHR ''-'' # ds \<and> n = - int (decimal ds))
           \<and> - (2 ^ 63) \<le> n \<and> n < 2 ^ 63"
proof (cases s)
  case Nil
  with assms show ?thesis by (simp add: Atoi_def)
next
  case (Cons c cs)
  define ds where "ds = (if c = CHR ''+'' \<or> c = CHR ''-'' then cs else s)"
  from assms Cons have ne: "ds \<noteq> []"
    by (auto simp: Atoi_def ds_def Let_def split: if_splits)
  from assms Cons obtain un where un: "ParseUint_loop ds 0 = Inr un"
    by (auto simp: Atoi_def ds_def Let_def split: if_splits sum.splits)
  then have digits: "list_all (\<lambda>c. c \<in> set ''0123456789'') ds"
    by (rule ParseUint_loop_digits)
  from ParseUint_loop_value [OF _ un] have val: "un = decimal ds"
    by (simp add: decimal_def)
  from digits ne have nosign: "hd ds \<noteq> CHR ''+''" "hd ds \<noteq> CHR ''-''"
    by (cases ds; auto)+
  show ?thesis
  proof (cases "c = CHR ''-''")
    case True
    with Cons have s: "s = CHR ''-'' # ds" by (simp add: ds_def)
    from assms un ne have "n = - int un \<and> un \<le> 2 ^ 63"
      unfolding s by (auto simp: Atoi_def Let_def split: if_splits)
    with s val ne digits show ?thesis
      by (intro exI [of _ ds]) auto
  next
    case False
    with Cons have s: "s = ds \<or> s = CHR ''+'' # ds" by (auto simp: ds_def)
    from s assms un ne nosign have "n = int un \<and> un < 2 ^ 63"
      by (auto simp: Atoi_def Let_def split: if_splits)
    with s val ne digits show ?thesis
      by (intro exI [of _ ds]) auto
  qed
qed

lemma Atoi_Inl:
  assumes "Atoi s = Inl e"
  shows "e = NumError ''Atoi'' s ErrSyntax \<or> e = NumError ''Atoi'' s ErrRange"
proof -
  from assms obtain k where "e = NumError ''Atoi'' s k"
    by (auto simp: Atoi_def Let_def split: if_splits sum.splits)
  then show ?thesis by (cases k) simp_all
qed

text \<open>What \<open>Atoi\<close> accepts, the other way round.\<close>

lemma char_digit:
  "c \<in> set ''0123456789'' \<Longrightarrow> 48 \<le> (of_char c :: nat) \<and> (of_char c :: nat) \<le> 57"
  by auto

lemma foldl_decimal_ge:
  "(n :: nat) \<le> foldl (\<lambda>n c. n * 10 + (of_char c - 48)) n ds"
proof (induction ds arbitrary: n)
  case Nil
  show ?case by simp
next
  case (Cons c ds)
  have "n \<le> n * 10 + (of_char c - 48)" by simp
  also have "\<dots> \<le> foldl (\<lambda>n c. n * 10 + (of_char c - 48)) (n * 10 + (of_char c - 48)) ds"
    by (rule Cons.IH)
  finally show ?case by simp
qed

lemma ParseUint_loop_accepts:
  "list_all (\<lambda>c. c \<in> set ''0123456789'') ds \<Longrightarrow>
   foldl (\<lambda>n c. n * 10 + (of_char c - 48)) n ds \<le> maxUint64 \<Longrightarrow>
   ParseUint_loop ds n = Inr (foldl (\<lambda>n c. n * 10 + (of_char c - 48)) n ds)"
proof (induction ds arbitrary: n)
  case Nil
  show ?case by simp
next
  case (Cons c ds)
  let ?n1 = "n * 10 + (of_char c - 48)"
  from Cons.prems(1) have c: "48 \<le> (of_char c :: nat)" "(of_char c :: nat) \<le> 57"
    using char_digit [of c] by simp_all
  from Cons.prems(2) have "foldl (\<lambda>n c. n * 10 + (of_char c - 48)) ?n1 ds \<le> maxUint64"
    by simp
  with foldl_decimal_ge [of ?n1 ds] have n1: "?n1 \<le> maxUint64"
    by (rule order_trans)
  then have n: "\<not> maxUint64 div 10 + 1 \<le> n"
    by (simp add: maxUint64_def)
  from Cons.prems have "ParseUint_loop ds ?n1 = Inr (foldl (\<lambda>n c. n * 10 + (of_char c - 48)) ?n1 ds)"
    by (intro Cons.IH) simp_all
  with c n n1 show ?case
    by (simp add: Let_def)
qed

lemma digits_no_sign:
  "ds \<noteq> [] \<Longrightarrow> list_all (\<lambda>c. c \<in> set ''0123456789'') ds \<Longrightarrow>
     hd ds \<noteq> CHR ''+'' \<and> hd ds \<noteq> CHR ''-''"
  by (cases ds) auto

lemma Atoi_accepts_unsigned:
  assumes "ds \<noteq> []" "list_all (\<lambda>c. c \<in> set ''0123456789'') ds" "decimal ds < 2 ^ 63"
  shows "Atoi ds = Inr (int (decimal ds))" "Atoi (CHR ''+'' # ds) = Inr (int (decimal ds))"
proof -
  from assms(3) have "decimal ds \<le> maxUint64" by (simp add: maxUint64_def)
  with assms(2) have p: "ParseUint_loop ds 0 = Inr (decimal ds)"
    unfolding decimal_def by (rule ParseUint_loop_accepts)
  from digits_no_sign [OF assms(1,2)] assms(1,3) p
  show "Atoi ds = Inr (int (decimal ds))"
    by (simp add: Atoi_def)
  from assms(1,3) p show "Atoi (CHR ''+'' # ds) = Inr (int (decimal ds))"
    by (simp add: Atoi_def)
qed

lemma Atoi_accepts_negative:
  assumes "ds \<noteq> []" "list_all (\<lambda>c. c \<in> set ''0123456789'') ds" "decimal ds \<le> 2 ^ 63"
  shows "Atoi (CHR ''-'' # ds) = Inr (- int (decimal ds))"
proof -
  from assms(3) have "decimal ds \<le> maxUint64" by (simp add: maxUint64_def)
  with assms(2) have p: "ParseUint_loop ds 0 = Inr (decimal ds)"
    unfolding decimal_def by (rule ParseUint_loop_accepts)
  from assms(1,3) p show ?thesis
    by (simp add: Atoi_def)
qed

text \<open>The values of the examples.\<close>

lemma ParseMAC_pairs_numeral:
  "ParseMAC_pairs (numeral k) s e =
     (case xtoi2 s e of
        None \<Rightarrow> None
      | Some b \<Rightarrow> map_option ((#) b) (ParseMAC_pairs (pred_numeral k) (drop 3 s) e))"
  by (simp add: numeral_eq_Suc)

lemma ParseMAC_example: "ParseMAC ''aa:bb:cc:dd:ee:ff'' = Inr [170, 187, 204, 221, 238, 255]"
  by (simp add: ParseMAC_def ParseMAC_pairs_numeral xtoi2_def hexVal_def)

lemma Atoi_5: "Atoi ''5'' = Inr 5"
  by (simp add: Atoi_def maxUint64_def)

lemma Atoi_12: "Atoi ''12'' = Inr 12"
  by (simp add: Atoi_def maxUint64_def)

lemma Atoi_1x: "Atoi ''1x'' = Inl (NumError ''Atoi'' ''1x'' ErrSyntax)"
  by (simp add: Atoi_def maxUint64_def)

subsection \<open>The tokenizer\<close>

lemma strToOption_bare:
  assumes "CHR ''='' \<notin> set str"
  shows "strToOption str = \<lparr>key = str, value = []\<rparr>"
proof (cases str)
  case Nil
  then show ?thesis by (simp add: strToOption_def SplitN_def)
next
  case (Cons c cs)
  from assms have "Index str (CHR ''='') = None" by (simp add: Index_None)
  moreover from Cons have "min 2 (length str + 1) - 1 = Suc 0" by simp
  ultimately show ?thesis by (simp add: strToOption_def SplitN_def)
qed

lemma strToOption_pair:
  assumes "CHR ''='' \<notin> set k"
  shows "strToOption (k @ CHR ''='' # v) = \<lparr>key = k, value = v\<rparr>"
proof -
  have "min 2 (length (k @ CHR ''='' # v) + 1) - 1 = Suc 0" by simp
  then have "SplitN (k @ CHR ''='' # v) (CHR ''='') 2 = [k, v]"
    by (simp add: SplitN_def Index_append [OF assms])
  then show ?thesis by (simp add: strToOption_def)
qed

lemma strvToOptions_eq:
  "strvToOptions opts = map strToOption (filter (\<lambda>opt. opt \<noteq> []) opts)"
  by (induction opts) simp_all

text \<open>
  Claim C4. \<open>strvToOptions\<close> drops every empty segment and turns the other
  segments into options, one for one and in their order. \<open>strToOption\<close> cuts a
  segment at its first \<open>=\<close>: a segment without \<open>=\<close> is a key with the empty
  value; a segment \<open>k=v\<close>, where \<open>k\<close> has no \<open>=\<close>, has the key \<open>k\<close> and the
  value \<open>v\<close>, whatever \<open>v\<close> contains. There is no error to return.
\<close>

theorem tokenizer_drops_empty_splits_first_eq:
  "strvToOptions segs = map strToOption (filter (\<lambda>seg. seg \<noteq> []) segs)
   \<and> (CHR ''='' \<notin> set seg \<longrightarrow> strToOption seg = \<lparr>key = seg, value = []\<rparr>)
   \<and> (CHR ''='' \<notin> set k \<longrightarrow> strToOption (k @ CHR ''='' # v) = \<lparr>key = k, value = v\<rparr>)"
  by (simp add: strvToOptions_eq strToOption_bare strToOption_pair)

theorem tokenizer_witness:
  "CHR ''='' \<notin> set ''nat'' \<and> strToOption ''nat'' = \<lparr>key = ''nat'', value = []\<rparr>
   \<and> CHR ''='' \<notin> set ''a'' \<and> strToOption ''a=b=c'' = \<lparr>key = ''a'', value = ''b=c''\<rparr>
   \<and> strvToOptions [''a=b=c'', [], ''nat'', []]
       = map strToOption [''a=b=c'', ''nat'']"
  using tokenizer_drops_empty_splits_first_eq
    [of "[''a=b=c'', [], ''nat'', []]" "''nat''" "''a''" "''b=c''"]
  by simp

subsection \<open>The dispatcher\<close>

lemma Split_first:
  "\<exists>rest. Split s sep = takeWhile (\<lambda>c. c \<noteq> sep) s # rest"
proof (cases "sep \<in> set s")
  case True
  then obtain k v where s: "s = k @ sep # v" and k: "sep \<notin> set k"
    by (auto dest: split_list_first)
  from k have "takeWhile (\<lambda>c. c \<noteq> sep) (k @ sep # v) = k"
    by (induction k) auto
  with s Split_append [OF k, of v] show ?thesis by simp
next
  case False
  then have tw: "takeWhile (\<lambda>c. c \<noteq> sep) s = s"
    by (induction s) auto
  show ?thesis
    by (subst tw) (simp add: Split_none [OF False])
qed

text \<open>
  Claim C6. The first piece of a device description is what stands before its
  first comma (the whole text when there is no comma). When it is none of the
  seven device kinds, \<open>deviceFromCmdLine\<close> returns the error
  \<open>unknown device type: <piece>\<close> and no device. It is a total function:
  \<open>opts[0]\<close> is read after the check of the length, and \<open>Split\<close> returns at
  least one piece (lemma \<open>Split_not_Nil\<close>).
\<close>

theorem unknown_device_type:
  assumes "takeWhile (\<lambda>c. c \<noteq> CHR '','') deviceOpts \<notin>
             {''virtio-blk'', ''virtio-fs'', ''virtio-net'', ''virtio-rng'', ''virtio-serial'',
              ''virtio-vsock'', ''usb-mass-storage''}"
  shows "deviceFromCmdLine deviceOpts =
           Inl (Errorf (''unknown device type: '' @ takeWhile (\<lambda>c. c \<noteq> CHR '','') deviceOpts))"
proof -
  obtain rest where "Split deviceOpts (CHR '','') = takeWhile (\<lambda>c. c \<noteq> CHR '','') deviceOpts # rest"
    using Split_first by blast
  with assms show ?thesis
    by (simp add: deviceFromCmdLine_def)
qed

theorem unknown_device_type_witness:
  "deviceFromCmdLine ''virtio-gpu,width=800'' = Inl (Errorf ''unknown device type: virtio-gpu'')"
  using unknown_device_type [of "''virtio-gpu,width=800''"] by simp

text \<open>
  Claim C8. The check \<open>len(opts) == 0\<close> of \<open>deviceFromCmdLine\<close> never
  succeeds, since \<open>strings.Split\<close> returns at least one piece, and for the
  empty text the piece is the empty text: the result is the error of an unknown
  device type with an empty name, not the error of the empty option list.
\<close>

theorem empty_spec_guard_is_dead:
  "length (Split deviceOpts (CHR '','')) \<noteq> 0
   \<and> deviceFromCmdLine [] = Inl (Errorf ''unknown device type: '')"
proof
  show "length (Split deviceOpts (CHR '','')) \<noteq> 0"
    by (simp add: Split_not_Nil)
  show "deviceFromCmdLine [] = Inl (Errorf ''unknown device type: '')"
    by (simp add: deviceFromCmdLine_def Split_def)
qed

subsection \<open>Storage configuration\<close>

lemma StorageConfig_FromOptions_frame:
  "fst (StorageConfig_FromOptions config options) =
     config\<lparr>ImagePath := ImagePath (fst (StorageConfig_FromOptions config options))\<rparr>"
proof (induction options arbitrary: config)
  case Nil
  show ?case by simp
next
  case (Cons opt options)
  show ?case
  proof (cases "key opt = ''path''")
    case True
    with Cons [of "config\<lparr>ImagePath := value opt\<rparr>"] show ?thesis
      by simp
  next
    case False
    then show ?thesis by simp
  qed
qed


text \<open>
  Claim C9. Whatever the options are, and whether or not an error is returned,
  \<open>StorageConfig.FromOptions\<close> leaves the configuration as it was except for
  \<open>ImagePath\<close>: \<open>DevName\<close> and \<open>ReadOnly\<close> keep their values.
  \<open>StorageConfig.ToCmdLine\<close> returns the same for two configurations that
  differ in \<open>ReadOnly\<close> only.
\<close>

theorem StorageConfig_decode_touches_ImagePath_only:
  "fst (StorageConfig_FromOptions config options) =
     config\<lparr>ImagePath := ImagePath (fst (StorageConfig_FromOptions config options))\<rparr>
   \<and> DevName (fst (StorageConfig_FromOptions config options)) = DevName config
   \<and> ReadOnly (fst (StorageConfig_FromOptions config options)) = ReadOnly config
   \<and> StorageConfig_ToCmdLine (config\<lparr>ReadOnly := b\<rparr>) = StorageConfig_ToCmdLine config"
proof (intro conjI)
  show "fst (StorageConfig_FromOptions config options) =
     config\<lparr>ImagePath := ImagePath (fst (StorageConfig_FromOptions config options))\<rparr>"
    by (rule StorageConfig_FromOptions_frame)
  show "DevName (fst (StorageConfig_FromOptions config options)) = DevName config"
    by (subst StorageConfig_FromOptions_frame) simp
  show "ReadOnly (fst (StorageConfig_FromOptions config options)) = ReadOnly config"
    by (subst StorageConfig_FromOptions_frame) simp
  show "StorageConfig_ToCmdLine (config\<lparr>ReadOnly := b\<rparr>) = StorageConfig_ToCmdLine config"
    by (simp add: StorageConfig_ToCmdLine_def)
qed

subsection \<open>virtio-vsock\<close>

lemma VirtioVsock_options_Listen:
  "Listen dev \<Longrightarrow> ''connect'' \<notin> key ` set options \<Longrightarrow>
     Listen (fst (VirtioVsock_options dev options))"
  by (induction options arbitrary: dev) (auto split: sum.splits)

text \<open>
  Claim C10. \<open>VirtioVsock.FromOptions\<close> sets \<open>Listen\<close> to true before it reads
  the options, so the value \<open>Listen\<close> had before does not matter. When no
  option has the key \<open>connect\<close>, \<open>Listen\<close> is true afterwards, also for a
  device made by \<open>VirtioVsockNew\<close> with \<open>listen = false\<close>.
\<close>

theorem VirtioVsock_decode_resets_Listen:
  assumes "''connect'' \<notin> key ` set options"
  shows "Listen (fst (VirtioVsock_FromOptions dev options))
    \<and> VirtioVsock_FromOptions (dev\<lparr>Listen := b\<rparr>) options = VirtioVsock_FromOptions dev options
    \<and> (\<exists>dev'. fst (FromOptions (VirtioVsockNew port socketURL False) options) = DevVirtioVsock dev'
          \<and> Listen dev')"
  using assms by (simp add: VirtioVsock_FromOptions_def VirtioVsock_options_Listen VirtioVsockNew_def)

theorem VirtioVsock_decode_resets_Listen_witness:
  "''connect'' \<notin> key ` set [\<lparr>key = ''port'', value = ''7''\<rparr>]
   \<and> Listen (fst (VirtioVsock_FromOptions \<lparr>Port = 1, SocketURL = ''/s'', Listen = False\<rparr>
        [\<lparr>key = ''port'', value = ''7''\<rparr>]))"
  using VirtioVsock_decode_resets_Listen
    [of "[\<lparr>key = ''port'', value = ''7''\<rparr>]" "\<lparr>Port = 1, SocketURL = ''/s'', Listen = False\<rparr>"]
  by simp

lemma VirtioVsock_options_append:
  "VirtioVsock_options dev (xs @ ys) =
     (case VirtioVsock_options dev xs of
        (dev', None) \<Rightarrow> VirtioVsock_options dev' ys
      | (dev', Some err) \<Rightarrow> (dev', Some err))"
  by (induction xs arbitrary: dev) (auto split: sum.splits)

lemma VirtioVsock_options_keeps_Listen:
  "''listen'' \<notin> key ` set options \<Longrightarrow> ''connect'' \<notin> key ` set options \<Longrightarrow>
     Listen (fst (VirtioVsock_options dev options)) = Listen dev"
  by (induction options arbitrary: dev) (auto split: sum.splits)

lemma VirtioVsock_options_last:
  assumes ok: "snd (VirtioVsock_options dev (pre @ opt # post)) = None"
    and opt: "key opt = ''listen'' \<or> key opt = ''connect''"
    and post: "''listen'' \<notin> key ` set post" "''connect'' \<notin> key ` set post"
  shows "Listen (fst (VirtioVsock_options dev (pre @ opt # post))) = (key opt = ''listen'')"
proof -
  obtain dev' e where pre: "VirtioVsock_options dev pre = (dev', e)"
    by (cases "VirtioVsock_options dev pre")
  with ok have e: "e = None"
    by (cases e) (simp_all add: VirtioVsock_options_append)
  from opt have "VirtioVsock_options dev' (opt # post) =
      VirtioVsock_options (dev'\<lparr>Listen := (key opt = ''listen'')\<rparr>) post"
    by auto
  with pre e have "VirtioVsock_options dev (pre @ opt # post) =
      VirtioVsock_options (dev'\<lparr>Listen := (key opt = ''listen'')\<rparr>) post"
    by (simp add: VirtioVsock_options_append)
  with post show ?thesis
    by (simp add: VirtioVsock_options_keeps_Listen)
qed

text \<open>
  Claim C3. After \<open>VirtioVsock.FromOptions\<close>, \<open>Listen\<close> is true when no
  option has the key \<open>listen\<close> or \<open>connect\<close>. When the options are decoded
  without error and some have these keys, the last of them decides: \<open>Listen\<close>
  is true exactly when its key is \<open>listen\<close>. The description
  \<open>virtio-vsock,port=1024,socketURL=/tmp/s.sock\<close> is decoded with
  \<open>Listen = true\<close>, and its command line ends in \<open>,listen\<close>.
\<close>

theorem VirtioVsock_direction:
  "(''listen'' \<notin> key ` set options \<and> ''connect'' \<notin> key ` set options
      \<longrightarrow> Listen (fst (VirtioVsock_FromOptions dev options)))
   \<and> (snd (VirtioVsock_FromOptions dev (pre @ opt # post)) = None
      \<and> (key opt = ''listen'' \<or> key opt = ''connect'')
      \<and> ''listen'' \<notin> key ` set post \<and> ''connect'' \<notin> key ` set post
      \<longrightarrow> Listen (fst (VirtioVsock_FromOptions dev (pre @ opt # post))) = (key opt = ''listen''))
   \<and> deviceFromCmdLine ''virtio-vsock,port=1024,socketURL=/tmp/s.sock'' =
       Inr (DevVirtioVsock \<lparr>Port = 1024, SocketURL = ''/tmp/s.sock'', Listen = True\<rparr>)
   \<and> ToCmdLine (DevVirtioVsock \<lparr>Port = 1024, SocketURL = ''/tmp/s.sock'', Listen = True\<rparr>) =
       ([''--device'', ''virtio-vsock,port=1024,socketURL=/tmp/s.sock,listen''], None)"
proof (intro conjI impI)
  assume "''listen'' \<notin> key ` set options \<and> ''connect'' \<notin> key ` set options"
  then show "Listen (fst (VirtioVsock_FromOptions dev options))"
    by (simp add: VirtioVsock_FromOptions_def VirtioVsock_options_keeps_Listen)
next
  assume "snd (VirtioVsock_FromOptions dev (pre @ opt # post)) = None
      \<and> (key opt = ''listen'' \<or> key opt = ''connect'')
      \<and> ''listen'' \<notin> key ` set post \<and> ''connect'' \<notin> key ` set post"
  then show "Listen (fst (VirtioVsock_FromOptions dev (pre @ opt # post))) = (key opt = ''listen'')"
    unfolding VirtioVsock_FromOptions_def by (intro VirtioVsock_options_last) simp_all
next
  have "Atoi ''1024'' = Inr 1024"
    by (simp add: Atoi_def maxUint64_def)
  then show "deviceFromCmdLine ''virtio-vsock,port=1024,socketURL=/tmp/s.sock'' =
       Inr (DevVirtioVsock \<lparr>Port = 1024, SocketURL = ''/tmp/s.sock'', Listen = True\<rparr>)"
    by (simp add: deviceFromCmdLine_def Split_def strToOption_def SplitN_def
        VirtioVsock_FromOptions_def uint_def)
next
  have "fmt_d 1024 = ''1024''"
    by (simp add: fmt_d.simps)
  then show "ToCmdLine (DevVirtioVsock \<lparr>Port = 1024, SocketURL = ''/tmp/s.sock'', Listen = True\<rparr>) =
       ([''--device'', ''virtio-vsock,port=1024,socketURL=/tmp/s.sock,listen''], None)"
    by (simp add: VirtioVsock_ToCmdLine_def)
qed

theorem VirtioVsock_direction_witness:
  "snd (VirtioVsock_FromOptions \<lparr>Port = 0, SocketURL = [], Listen = False\<rparr>
      ([\<lparr>key = ''listen'', value = []\<rparr>, \<lparr>key = ''socketURL'', value = ''/s''\<rparr>]
        @ \<lparr>key = ''connect'', value = []\<rparr> # [\<lparr>key = ''socketURL'', value = ''/t''\<rparr>])) = None
   \<and> \<not> Listen (fst (VirtioVsock_FromOptions \<lparr>Port = 0, SocketURL = [], Listen = False\<rparr>
      ([\<lparr>key = ''listen'', value = []\<rparr>, \<lparr>key = ''socketURL'', value = ''/s''\<rparr>]
        @ \<lparr>key = ''connect'', value = []\<rparr> # [\<lparr>key = ''socketURL'', value = ''/t''\<rparr>])))
   \<and> Listen (fst (VirtioVsock_FromOptions \<lparr>Port = 0, SocketURL = [], Listen = False\<rparr>
      [\<lparr>key = ''socketURL'', value = ''/s''\<rparr>]))"
  using VirtioVsock_direction
    [of "[\<lparr>key = ''socketURL'', value = ''/s''\<rparr>]"
        "\<lparr>Port = 0, SocketURL = [], Listen = False\<rparr>"
        "[\<lparr>key = ''listen'', value = []\<rparr>, \<lparr>key = ''socketURL'', value = ''/s''\<rparr>]"
        "\<lparr>key = ''connect'', value = []\<rparr>"
        "[\<lparr>key = ''socketURL'', value = ''/t''\<rparr>]"]
  by (simp add: VirtioVsock_FromOptions_def)

subsection \<open>virtio-blk\<close>

text \<open>
  Claim C1. \<open>virtio-blk,path=/img.raw,deviceId=disk0\<close> is decoded to a block
  device whose command line is \<open>--device\<close> followed by the same text.
  \<open>virtio-blk\<close> alone is decoded without error, to the empty block device;
  its command line is the error that the path of the disk image is missing,
  with no token.
\<close>

theorem virtio_blk_round_trip:
  "deviceFromCmdLine ''virtio-blk,path=/img.raw,deviceId=disk0'' =
     Inr (DevVirtioBlk \<lparr>DevName = ''virtio-blk'', ImagePath = ''/img.raw'', ReadOnly = False,
                         DeviceIdentifier = ''disk0''\<rparr>)
   \<and> ToCmdLine (DevVirtioBlk \<lparr>DevName = ''virtio-blk'', ImagePath = ''/img.raw'',
                     ReadOnly = False, DeviceIdentifier = ''disk0''\<rparr>) =
       ([''--device'', ''virtio-blk,path=/img.raw,deviceId=disk0''], None)
   \<and> deviceFromCmdLine ''virtio-blk'' =
       Inr (DevVirtioBlk \<lparr>DevName = ''virtio-blk'', ImagePath = [], ReadOnly = False,
                           DeviceIdentifier = []\<rparr>)
   \<and> ToCmdLine (DevVirtioBlk \<lparr>DevName = ''virtio-blk'', ImagePath = [], ReadOnly = False,
                     DeviceIdentifier = []\<rparr>) =
       ([], Some (Errorf ''virtio-blk devices need the path to a disk image''))"
proof (intro conjI)
  show "deviceFromCmdLine ''virtio-blk,path=/img.raw,deviceId=disk0'' =
     Inr (DevVirtioBlk \<lparr>DevName = ''virtio-blk'', ImagePath = ''/img.raw'', ReadOnly = False,
                         DeviceIdentifier = ''disk0''\<rparr>)"
    by (simp add: deviceFromCmdLine_def Split_def strToOption_def SplitN_def
        VirtioBlk_FromOptions_def virtioBlkNewEmpty_def)
  show "ToCmdLine (DevVirtioBlk \<lparr>DevName = ''virtio-blk'', ImagePath = ''/img.raw'',
                     ReadOnly = False, DeviceIdentifier = ''disk0''\<rparr>) =
       ([''--device'', ''virtio-blk,path=/img.raw,deviceId=disk0''], None)"
    by (simp add: VirtioBlk_ToCmdLine_def StorageConfig_ToCmdLine_def)
  show "deviceFromCmdLine ''virtio-blk'' =
       Inr (DevVirtioBlk \<lparr>DevName = ''virtio-blk'', ImagePath = [], ReadOnly = False,
                           DeviceIdentifier = []\<rparr>)"
    by (simp add: deviceFromCmdLine_def Split_def VirtioBlk_FromOptions_def virtioBlkNewEmpty_def)
  show "ToCmdLine (DevVirtioBlk \<lparr>DevName = ''virtio-blk'', ImagePath = [], ReadOnly = False,
                     DeviceIdentifier = []\<rparr>) =
       ([], Some (Errorf ''virtio-blk devices need the path to a disk image''))"
    by (simp add: VirtioBlk_ToCmdLine_def StorageConfig_ToCmdLine_def)
qed

subsection \<open>The loops of virtio-net and virtio-vsock\<close>

lemma VirtioNet_options_append:
  "VirtioNet_options dev (xs @ ys) =
     (case VirtioNet_options dev xs of
        (dev', None) \<Rightarrow> VirtioNet_options dev' ys
      | (dev', Some err) \<Rightarrow> (dev', Some err))"
  by (induction xs arbitrary: dev) (auto split: sum.splits)

lemma VirtioVsock_options_port:
  "snd (VirtioVsock_options dev options) = None \<Longrightarrow> opt \<in> set options \<Longrightarrow>
     key opt = ''port'' \<Longrightarrow> \<exists>port. Atoi (value opt) = Inr port"
  by (induction options arbitrary: dev) (auto split: sum.splits if_splits)

lemma VirtioNet_options_fd:
  "snd (VirtioNet_options dev options) = None \<Longrightarrow> opt \<in> set options \<Longrightarrow>
     key opt = ''fd'' \<Longrightarrow> \<exists>fd. Atoi (value opt) = Inr fd"
  by (induction options arbitrary: dev) (auto split: sum.splits if_splits)

lemma VirtioNet_FromOptions_None:
  "snd (VirtioNet_FromOptions dev options) = None \<Longrightarrow> snd (VirtioNet_options dev options) = None"
  by (auto simp: VirtioNet_FromOptions_def split: prod.splits option.splits)

lemma VirtioVsock_options_first_error:
  assumes "snd (VirtioVsock_options dev pre) = None"
  shows "snd (VirtioVsock_options dev (pre @ opt # post)) =
           snd (VirtioVsock_options (fst (VirtioVsock_options dev pre)) (opt # post))"
  using assms by (cases "VirtioVsock_options dev pre") (simp add: VirtioVsock_options_append)

lemma VirtioNet_options_first_error:
  assumes "snd (VirtioNet_options dev pre) = None"
  shows "snd (VirtioNet_options dev (pre @ opt # post)) =
           snd (VirtioNet_options (fst (VirtioNet_options dev pre)) (opt # post))"
  using assms by (cases "VirtioNet_options dev pre") (simp add: VirtioNet_options_append)

lemma VirtioNet_FromOptions_Some:
  "snd (VirtioNet_options dev options) = Some err \<Longrightarrow>
     snd (VirtioNet_FromOptions dev options) = Some err"
  by (auto simp: VirtioNet_FromOptions_def split: prod.splits option.splits)

subsection \<open>virtio-net\<close>

text \<open>
  Claim C2, as the code has it. \<open>VirtioNet.ToCmdLine\<close> returns tokens exactly
  when one of \<open>Nat\<close> and \<open>Socket\<close> is set and the other is not; with both it
  returns the error that \<open>nat\<close> and \<open>fd\<close> cannot be set at the same time,
  with neither the error that one of them must be set. \<open>FromOptions\<close> ends
  with the same check, so both examples fail when they are decoded:
  \<open>virtio-net,nat,fd=5\<close> with the first error and
  \<open>virtio-net,mac=aa:bb:cc:dd:ee:ff\<close> with the second. The second example
  never reaches \<open>ToCmdLine\<close> through \<open>deviceFromCmdLine\<close>; on the fields
  that \<open>FromOptions\<close> leaves behind, \<open>ToCmdLine\<close> returns the same error.
\<close>

theorem VirtioNet_exactly_one_of_nat_and_socket:
  "(snd (VirtioNet_ToCmdLine dev) = None \<longleftrightarrow>
      (Nat dev \<and> Socket dev = None) \<or> (\<not> Nat dev \<and> Socket dev \<noteq> None))
   \<and> (Nat dev \<and> Socket dev \<noteq> None \<longrightarrow>
        VirtioNet_ToCmdLine dev = ([], Some (Errorf '''nat' and 'fd' cannot be set at the same time'')))
   \<and> (\<not> Nat dev \<and> Socket dev = None \<longrightarrow>
        VirtioNet_ToCmdLine dev = ([], Some (Errorf ''One of 'nat' or 'fd' must be set'')))
   \<and> deviceFromCmdLine ''virtio-net,nat,fd=5'' =
        Inl (Errorf '''nat' and 'fd' cannot be set at the same time'')
   \<and> VirtioNet_FromOptions \<lparr>Nat = False, MacAddress = [], Socket = None\<rparr>
        [\<lparr>key = ''mac'', value = ''aa:bb:cc:dd:ee:ff''\<rparr>] =
        (\<lparr>Nat = False, MacAddress = [170, 187, 204, 221, 238, 255], Socket = None\<rparr>,
         Some (Errorf ''One of 'nat' or 'fd' must be set''))
   \<and> deviceFromCmdLine ''virtio-net,mac=aa:bb:cc:dd:ee:ff'' =
        Inl (Errorf ''One of 'nat' or 'fd' must be set'')
   \<and> VirtioNet_ToCmdLine \<lparr>Nat = False, MacAddress = [170, 187, 204, 221, 238, 255], Socket = None\<rparr> =
        ([], Some (Errorf ''One of 'nat' or 'fd' must be set''))"
proof (intro conjI impI)
  show "snd (VirtioNet_ToCmdLine dev) = None \<longleftrightarrow>
      (Nat dev \<and> Socket dev = None) \<or> (\<not> Nat dev \<and> Socket dev \<noteq> None)"
    by (auto simp: VirtioNet_ToCmdLine_def validate_def Let_def split: option.splits)
next
  assume "Nat dev \<and> Socket dev \<noteq> None"
  then show "VirtioNet_ToCmdLine dev =
      ([], Some (Errorf '''nat' and 'fd' cannot be set at the same time''))"
    by (simp add: VirtioNet_ToCmdLine_def validate_def)
next
  assume "\<not> Nat dev \<and> Socket dev = None"
  then show "VirtioNet_ToCmdLine dev = ([], Some (Errorf ''One of 'nat' or 'fd' must be set''))"
    by (simp add: VirtioNet_ToCmdLine_def validate_def)
next
  show "deviceFromCmdLine ''virtio-net,nat,fd=5'' =
        Inl (Errorf '''nat' and 'fd' cannot be set at the same time'')"
    by (simp add: deviceFromCmdLine_def Split_def strToOption_def SplitN_def
        VirtioNet_FromOptions_def validate_def NewFile_def uint_def Atoi_5)
next
  show mac: "VirtioNet_FromOptions \<lparr>Nat = False, MacAddress = [], Socket = None\<rparr>
        [\<lparr>key = ''mac'', value = ''aa:bb:cc:dd:ee:ff''\<rparr>] =
        (\<lparr>Nat = False, MacAddress = [170, 187, 204, 221, 238, 255], Socket = None\<rparr>,
         Some (Errorf ''One of 'nat' or 'fd' must be set''))"
    by (simp add: VirtioNet_FromOptions_def validate_def ParseMAC_example)
  have "strvToOptions [''mac=aa:bb:cc:dd:ee:ff''] = [\<lparr>key = ''mac'', value = ''aa:bb:cc:dd:ee:ff''\<rparr>]"
    by (simp add: strToOption_def SplitN_def)
  with mac show "deviceFromCmdLine ''virtio-net,mac=aa:bb:cc:dd:ee:ff'' =
        Inl (Errorf ''One of 'nat' or 'fd' must be set'')"
    by (simp add: deviceFromCmdLine_def Split_def)
next
  show "VirtioNet_ToCmdLine \<lparr>Nat = False, MacAddress = [170, 187, 204, 221, 238, 255], Socket = None\<rparr> =
        ([], Some (Errorf ''One of 'nat' or 'fd' must be set''))"
    by (simp add: VirtioNet_ToCmdLine_def validate_def)
qed

theorem VirtioNet_exactly_one_witness:
  "VirtioNet_ToCmdLine \<lparr>Nat = True, MacAddress = [], Socket = Some (File 5)\<rparr> =
     ([], Some (Errorf '''nat' and 'fd' cannot be set at the same time''))
   \<and> VirtioNet_ToCmdLine \<lparr>Nat = False, MacAddress = [], Socket = None\<rparr> =
     ([], Some (Errorf ''One of 'nat' or 'fd' must be set''))
   \<and> snd (VirtioNet_ToCmdLine \<lparr>Nat = True, MacAddress = [], Socket = None\<rparr>) = None
   \<and> snd (VirtioNet_ToCmdLine \<lparr>Nat = False, MacAddress = [], Socket = Some (File 5)\<rparr>) = None"
  using
    VirtioNet_exactly_one_of_nat_and_socket
      [of "\<lparr>Nat = True, MacAddress = [], Socket = Some (File 5)\<rparr>"]
    VirtioNet_exactly_one_of_nat_and_socket
      [of "\<lparr>Nat = False, MacAddress = [], Socket = None\<rparr>"]
    VirtioNet_exactly_one_of_nat_and_socket
      [of "\<lparr>Nat = True, MacAddress = [], Socket = None\<rparr>"]
    VirtioNet_exactly_one_of_nat_and_socket
      [of "\<lparr>Nat = False, MacAddress = [], Socket = Some (File 5)\<rparr>"]
  by simp

text \<open>
  The claim places the failure of \<open>virtio-net,mac=aa:bb:cc:dd:ee:ff\<close> at
  encoding time: decoding already returns the error, and no device.
\<close>

theorem mac_alone_fails_at_decode:
  "deviceFromCmdLine ''virtio-net,mac=aa:bb:cc:dd:ee:ff'' =
     Inl (Errorf ''One of 'nat' or 'fd' must be set'')"
  by (simp add: deviceFromCmdLine_def Split_def strToOption_def SplitN_def
      VirtioNet_FromOptions_def validate_def ParseMAC_example)

text \<open>A value that \<open>Atoi\<close> accepts is taken; a negative descriptor gives no socket.\<close>

lemma uint_negative:
  assumes "0 < k" "k \<le> 2 ^ 63"
  shows "NewFile (uint (- int k)) name = None"
proof -
  have "(- int k) mod 2 ^ 64 = 2 ^ 64 - int k"
    using assms by (simp add: zmod_zminus1_eq_if)
  with assms show ?thesis
    by (simp add: NewFile_def uint_def nat_le_iff)
qed

lemma VirtioNet_negative_fd:
  assumes "ds \<noteq> []" "list_all (\<lambda>c. c \<in> set ''0123456789'') ds"
    "0 < decimal ds" "decimal ds \<le> 2 ^ 63"
  shows "VirtioNet_FromOptions net
     [\<lparr>key = ''nat'', value = []\<rparr>, \<lparr>key = ''fd'', value = CHR ''-'' # ds\<rparr>] =
     (net\<lparr>Nat := True, Socket := None\<rparr>, None)"
  using Atoi_accepts_negative [OF assms(1,2,4)] uint_negative [OF assms(3,4)]
  by (simp add: VirtioNet_FromOptions_def validate_def)

lemma VirtioVsock_accepted_port:
  assumes "Atoi v = Inr n"
  shows "VirtioVsock_FromOptions vsock [\<lparr>key = ''port'', value = v\<rparr>] =
     (vsock\<lparr>Listen := True, Port := uint n\<rparr>, None)"
  using assms by (simp add: VirtioVsock_FromOptions_def)

lemma VirtioNet_accepted_fd:
  assumes "Atoi v = Inr n"
  shows "VirtioNet_options net [\<lparr>key = ''fd'', value = v\<rparr>] =
     (net\<lparr>Socket := NewFile (uint n) ''vfkit virtio-net socket''\<rparr>, None)"
  using assms by simp

subsection \<open>Numeric values\<close>

text \<open>
  Claim C7, as the code has it. The values of \<open>port\<close> (virtio-vsock) and of
  \<open>fd\<close> (virtio-net) are read by \<open>Atoi\<close>, which accepts a text only as a
  whole: an optional sign and then decimal digits, at least one, for a number
  from \<open>-2^63\<close> to \<open>2^63 - 1\<close>, which is what it returns. Otherwise it
  returns a \<open>NumError\<close> that names the text, for wrong syntax or for a number
  out of range. Options that are decoded without error have \<open>port\<close> and
  \<open>fd\<close> values that \<open>Atoi\<close> accepts, and the first value it refuses ends the
  decoding with its error. A sign is accepted for \<open>fd\<close> as it is for
  \<open>port\<close>: \<open>Atoi\<close> accepts every text of digits with or without a sign
  whose number is in the range, and the loops take the number it returns. A
  negative \<open>fd\<close> gives no socket, so that \<open>nat\<close> followed by a negative
  \<open>fd\<close> is decoded without error.
\<close>

theorem numeric_values_parse_fully:
  "(Atoi v = Inr n \<longrightarrow>
      (\<exists>ds. ds \<noteq> [] \<and> list_all (\<lambda>c. c \<in> set ''0123456789'') ds
         \<and> ((v = ds \<or> v = CHR ''+'' # ds) \<and> n = int (decimal ds)
              \<or> v = CHR ''-'' # ds \<and> n = - int (decimal ds))
         \<and> - (2 ^ 63) \<le> n \<and> n < 2 ^ 63))
   \<and> (Atoi v = Inl e \<longrightarrow> e = NumError ''Atoi'' v ErrSyntax \<or> e = NumError ''Atoi'' v ErrRange)
   \<and> (snd (VirtioVsock_FromOptions vsock options) = None \<and> opt \<in> set options \<and> key opt = ''port''
        \<longrightarrow> (\<exists>port. Atoi (value opt) = Inr port))
   \<and> (snd (VirtioVsock_FromOptions vsock pre) = None \<and> Atoi v = Inl e
        \<longrightarrow> snd (VirtioVsock_FromOptions vsock (pre @ \<lparr>key = ''port'', value = v\<rparr> # post)) = Some e)
   \<and> (snd (VirtioNet_FromOptions net options) = None \<and> opt \<in> set options \<and> key opt = ''fd''
        \<longrightarrow> (\<exists>fd. Atoi (value opt) = Inr fd))
   \<and> (snd (VirtioNet_options net pre) = None \<and> Atoi v = Inl e
        \<longrightarrow> snd (VirtioNet_FromOptions net (pre @ \<lparr>key = ''fd'', value = v\<rparr> # post)) = Some e)
   \<and> (digits \<noteq> [] \<and> list_all (\<lambda>c. c \<in> set ''0123456789'') digits \<and> decimal digits < 2 ^ 63
        \<longrightarrow> Atoi digits = Inr (int (decimal digits))
          \<and> Atoi (CHR ''+'' # digits) = Inr (int (decimal digits)))
   \<and> (digits \<noteq> [] \<and> list_all (\<lambda>c. c \<in> set ''0123456789'') digits \<and> decimal digits \<le> 2 ^ 63
        \<longrightarrow> Atoi (CHR ''-'' # digits) = Inr (- int (decimal digits)))
   \<and> (Atoi v = Inr n
        \<longrightarrow> VirtioVsock_FromOptions vsock [\<lparr>key = ''port'', value = v\<rparr>] =
              (vsock\<lparr>Listen := True, Port := uint n\<rparr>, None))
   \<and> (Atoi v = Inr n
        \<longrightarrow> VirtioNet_options net [\<lparr>key = ''fd'', value = v\<rparr>] =
              (net\<lparr>Socket := NewFile (uint n) ''vfkit virtio-net socket''\<rparr>, None))
   \<and> (digits \<noteq> [] \<and> list_all (\<lambda>c. c \<in> set ''0123456789'') digits \<and> 0 < decimal digits \<and> decimal digits \<le> 2 ^ 63
        \<longrightarrow> VirtioNet_FromOptions net
              [\<lparr>key = ''nat'', value = []\<rparr>, \<lparr>key = ''fd'', value = CHR ''-'' # digits\<rparr>] =
              (net\<lparr>Nat := True, Socket := None\<rparr>, None))"
proof (intro conjI impI)
  assume "Atoi v = Inr n"
  then show "\<exists>ds. ds \<noteq> [] \<and> list_all (\<lambda>c. c \<in> set ''0123456789'') ds
         \<and> ((v = ds \<or> v = CHR ''+'' # ds) \<and> n = int (decimal ds)
              \<or> v = CHR ''-'' # ds \<and> n = - int (decimal ds))
         \<and> - (2 ^ 63) \<le> n \<and> n < 2 ^ 63"
    by (rule Atoi_Inr)
next
  assume "Atoi v = Inl e"
  then show "e = NumError ''Atoi'' v ErrSyntax \<or> e = NumError ''Atoi'' v ErrRange"
    by (rule Atoi_Inl)
next
  assume "snd (VirtioVsock_FromOptions vsock options) = None \<and> opt \<in> set options \<and> key opt = ''port''"
  then show "\<exists>port. Atoi (value opt) = Inr port"
    unfolding VirtioVsock_FromOptions_def by (blast intro: VirtioVsock_options_port)
next
  assume a: "snd (VirtioVsock_FromOptions vsock pre) = None \<and> Atoi v = Inl e"
  then have "snd (VirtioVsock_options (vsock\<lparr>Listen := True\<rparr>) pre) = None"
    by (simp add: VirtioVsock_FromOptions_def)
  from VirtioVsock_options_first_error [OF this] a
  show "snd (VirtioVsock_FromOptions vsock (pre @ \<lparr>key = ''port'', value = v\<rparr> # post)) = Some e"
    by (simp add: VirtioVsock_FromOptions_def)
next
  assume "snd (VirtioNet_FromOptions net options) = None \<and> opt \<in> set options \<and> key opt = ''fd''"
  then show "\<exists>fd. Atoi (value opt) = Inr fd"
    by (blast intro: VirtioNet_options_fd VirtioNet_FromOptions_None)
next
  assume a: "snd (VirtioNet_options net pre) = None \<and> Atoi v = Inl e"
  then have "snd (VirtioNet_options net pre) = None" ..
  from VirtioNet_options_first_error [OF this] a
  have "snd (VirtioNet_options net (pre @ \<lparr>key = ''fd'', value = v\<rparr> # post)) = Some e"
    by simp
  then show "snd (VirtioNet_FromOptions net (pre @ \<lparr>key = ''fd'', value = v\<rparr> # post)) = Some e"
    by (rule VirtioNet_FromOptions_Some)
next
  assume "digits \<noteq> [] \<and> list_all (\<lambda>c. c \<in> set ''0123456789'') digits \<and> decimal digits < 2 ^ 63"
  then show "Atoi digits = Inr (int (decimal digits))"
    by (intro Atoi_accepts_unsigned) simp_all
next
  assume "digits \<noteq> [] \<and> list_all (\<lambda>c. c \<in> set ''0123456789'') digits \<and> decimal digits < 2 ^ 63"
  then show "Atoi (CHR ''+'' # digits) = Inr (int (decimal digits))"
    by (intro Atoi_accepts_unsigned) simp_all
next
  assume "digits \<noteq> [] \<and> list_all (\<lambda>c. c \<in> set ''0123456789'') digits \<and> decimal digits \<le> 2 ^ 63"
  then show "Atoi (CHR ''-'' # digits) = Inr (- int (decimal digits))"
    by (intro Atoi_accepts_negative) simp_all
next
  assume "Atoi v = Inr n"
  then show "VirtioVsock_FromOptions vsock [\<lparr>key = ''port'', value = v\<rparr>] =
      (vsock\<lparr>Listen := True, Port := uint n\<rparr>, None)"
    by (rule VirtioVsock_accepted_port)
next
  assume "Atoi v = Inr n"
  then show "VirtioNet_options net [\<lparr>key = ''fd'', value = v\<rparr>] =
      (net\<lparr>Socket := NewFile (uint n) ''vfkit virtio-net socket''\<rparr>, None)"
    by (rule VirtioNet_accepted_fd)
next
  assume "digits \<noteq> [] \<and> list_all (\<lambda>c. c \<in> set ''0123456789'') digits \<and> 0 < decimal digits \<and> decimal digits \<le> 2 ^ 63"
  then show "VirtioNet_FromOptions net
      [\<lparr>key = ''nat'', value = []\<rparr>, \<lparr>key = ''fd'', value = CHR ''-'' # digits\<rparr>] =
      (net\<lparr>Nat := True, Socket := None\<rparr>, None)"
    by (intro VirtioNet_negative_fd) simp_all
qed

theorem numeric_values_parse_fully_witness:
  "Atoi ''12'' = Inr 12
   \<and> Atoi ''1x'' = Inl (NumError ''Atoi'' ''1x'' ErrSyntax)
   \<and> snd (VirtioVsock_FromOptions \<lparr>Port = 0, SocketURL = [], Listen = False\<rparr>
        [\<lparr>key = ''port'', value = ''12''\<rparr>]) = None
   \<and> snd (VirtioVsock_FromOptions \<lparr>Port = 0, SocketURL = [], Listen = False\<rparr>
        ([\<lparr>key = ''port'', value = ''12''\<rparr>] @ \<lparr>key = ''port'', value = ''1x''\<rparr> # [])) =
       Some (NumError ''Atoi'' ''1x'' ErrSyntax)
   \<and> snd (VirtioNet_FromOptions \<lparr>Nat = False, MacAddress = [], Socket = None\<rparr>
        [\<lparr>key = ''fd'', value = ''12''\<rparr>]) = None
   \<and> snd (VirtioNet_options \<lparr>Nat = False, MacAddress = [], Socket = None\<rparr>
        [\<lparr>key = ''fd'', value = ''12''\<rparr>]) = None
   \<and> snd (VirtioNet_FromOptions \<lparr>Nat = False, MacAddress = [], Socket = None\<rparr>
        ([\<lparr>key = ''fd'', value = ''12''\<rparr>] @ \<lparr>key = ''fd'', value = ''1x''\<rparr> # [])) =
       Some (NumError ''Atoi'' ''1x'' ErrSyntax)
   \<and> Atoi ''-12'' = Inr (- 12)
   \<and> Atoi ''+12'' = Inr 12
   \<and> VirtioVsock_FromOptions \<lparr>Port = 0, SocketURL = [], Listen = False\<rparr>
        [\<lparr>key = ''port'', value = ''12''\<rparr>] =
       (\<lparr>Port = 12, SocketURL = [], Listen = True\<rparr>, None)
   \<and> VirtioNet_FromOptions \<lparr>Nat = False, MacAddress = [], Socket = None\<rparr>
        [\<lparr>key = ''nat'', value = []\<rparr>, \<lparr>key = ''fd'', value = ''-12''\<rparr>] =
       (\<lparr>Nat = True, MacAddress = [], Socket = None\<rparr>, None)"
  using
    numeric_values_parse_fully
      [where digits = "''12''" and v = "''12''" and n = 12
         and vsock = "\<lparr>Port = 0, SocketURL = [], Listen = False\<rparr>"
         and net = "\<lparr>Nat = False, MacAddress = [], Socket = None\<rparr>"]
    numeric_values_parse_fully
      [where v = "''1x''" and e = "NumError ''Atoi'' ''1x'' ErrSyntax"
         and vsock = "\<lparr>Port = 0, SocketURL = [], Listen = False\<rparr>"
         and options = "[\<lparr>key = ''port'', value = ''12''\<rparr>]"
         and opt = "\<lparr>key = ''port'', value = ''12''\<rparr>"
         and pre = "[\<lparr>key = ''port'', value = ''12''\<rparr>]" and post = "[]"]
    numeric_values_parse_fully
      [where v = "''1x''" and e = "NumError ''Atoi'' ''1x'' ErrSyntax"
         and net = "\<lparr>Nat = False, MacAddress = [], Socket = None\<rparr>"
         and options = "[\<lparr>key = ''fd'', value = ''12''\<rparr>]"
         and opt = "\<lparr>key = ''fd'', value = ''12''\<rparr>"
         and pre = "[\<lparr>key = ''fd'', value = ''12''\<rparr>]" and post = "[]"]
  by (simp add: Atoi_12 Atoi_1x VirtioVsock_FromOptions_def VirtioNet_FromOptions_def
      validate_def NewFile_def uint_def decimal_def)

text \<open>
  A negative \<open>fd\<close> is not refused: \<open>Atoi\<close> reads \<open>-1\<close>, \<open>os.NewFile\<close>
  returns \<open>nil\<close> for it, and with \<open>nat\<close> the device passes \<open>validate\<close>.
\<close>

theorem negative_fd_is_accepted:
  "deviceFromCmdLine ''virtio-net,nat,fd=-1'' =
     Inr (DevVirtioNet \<lparr>Nat = True, MacAddress = [], Socket = None\<rparr>)"
proof -
  have "Atoi ''-1'' = Inr (- 1)"
    by (simp add: Atoi_def maxUint64_def)
  then show ?thesis
    by (simp add: deviceFromCmdLine_def Split_def strToOption_def SplitN_def
        VirtioNet_FromOptions_def validate_def NewFile_def uint_def)
qed

subsection \<open>Unknown keys\<close>

lemma VirtioSerial_FromOptions_error:
  "snd (VirtioSerial_FromOptions dev options) =
     map_option (\<lambda>opt. Errorf (''Unknown option for virtio-serial devices: '' @ key opt))
       (find (\<lambda>opt. key opt \<noteq> ''logFilePath'') options)"
  by (induction options arbitrary: dev) simp_all

lemma VirtioFs_FromOptions_error:
  "snd (VirtioFs_FromOptions dev options) =
     map_option (\<lambda>opt. Errorf (''Unknown option for virtio-fs devices: '' @ key opt))
       (find (\<lambda>opt. key opt \<noteq> ''sharedDir'' \<and> key opt \<noteq> ''mountTag'') options)"
  by (induction options arbitrary: dev) simp_all

lemma StorageConfig_FromOptions_error:
  "snd (StorageConfig_FromOptions config options) =
     map_option (\<lambda>opt. Errorf (''Unknown option for '' @ DevName config @ '' devices: '' @ key opt))
       (find (\<lambda>opt. key opt \<noteq> ''path'') options)"
  by (induction options arbitrary: config) simp_all

lemma VirtioBlk_options_unhandled:
  "snd (VirtioBlk_options dev unhandledOpts options) =
     unhandledOpts @ filter (\<lambda>opt. key opt \<noteq> ''deviceId'') options"
  by (induction options arbitrary: dev unhandledOpts) simp_all

lemma VirtioBlk_options_DevName:
  "DevName (fst (VirtioBlk_options dev unhandledOpts options)) = DevName dev"
  by (induction options arbitrary: dev unhandledOpts) simp_all

lemma find_filter:
  "find P (filter Q xs) = find (\<lambda>x. Q x \<and> P x) xs"
  by (induction xs) simp_all

lemma VirtioBlk_FromOptions_error:
  "snd (VirtioBlk_FromOptions dev options) =
     map_option (\<lambda>opt. Errorf (''Unknown option for '' @ DevName dev @ '' devices: '' @ key opt))
       (find (\<lambda>opt. key opt \<noteq> ''deviceId'' \<and> key opt \<noteq> ''path'') options)"
  using VirtioBlk_options_unhandled [of dev "[]" options]
    VirtioBlk_options_DevName [of dev "[]" options]
  by (cases "VirtioBlk_options dev [] options")
    (simp add: VirtioBlk_FromOptions_def StorageConfig_FromOptions_error find_filter)

lemma VirtioNet_unknown:
  assumes "key opt \<noteq> ''nat''" "key opt \<noteq> ''mac''" "key opt \<noteq> ''fd''"
  shows "snd (VirtioNet_FromOptions dev (pre @ opt # post)) =
     (case snd (VirtioNet_options dev pre) of
        Some err \<Rightarrow> Some err
      | None \<Rightarrow> Some (Errorf (''Unknown option for virtio-net devices: '' @ key opt)))"
proof (cases "snd (VirtioNet_options dev pre)")
  case None
  from VirtioNet_options_first_error [OF None, of opt post] assms
  have "snd (VirtioNet_options dev (pre @ opt # post)) =
      Some (Errorf (''Unknown option for virtio-net devices: '' @ key opt))"
    by simp
  with None show ?thesis
    by (simp add: VirtioNet_FromOptions_Some)
next
  case (Some err)
  then have "snd (VirtioNet_options dev (pre @ opt # post)) = Some err"
    by (cases "VirtioNet_options dev pre") (simp add: VirtioNet_options_append)
  with Some show ?thesis
    by (simp add: VirtioNet_FromOptions_Some)
qed

lemma VirtioVsock_unknown:
  assumes "key opt \<noteq> ''socketURL''" "key opt \<noteq> ''port''" "key opt \<noteq> ''listen''"
    "key opt \<noteq> ''connect''"
  shows "snd (VirtioVsock_FromOptions dev (pre @ opt # post)) =
     (case snd (VirtioVsock_FromOptions dev pre) of
        Some err \<Rightarrow> Some err
      | None \<Rightarrow> Some (Errorf (''Unknown option for virtio-vsock devices: '' @ key opt)))"
proof (cases "snd (VirtioVsock_options (dev\<lparr>Listen := True\<rparr>) pre)")
  case None
  from VirtioVsock_options_first_error [OF None, of opt post] assms None
  show ?thesis
    by (simp add: VirtioVsock_FromOptions_def)
next
  case (Some err)
  then have "snd (VirtioVsock_options (dev\<lparr>Listen := True\<rparr>) (pre @ opt # post)) = Some err"
    by (cases "VirtioVsock_options (dev\<lparr>Listen := True\<rparr>) pre")
      (simp add: VirtioVsock_options_append)
  with Some show ?thesis
    by (simp add: VirtioVsock_FromOptions_def)
qed

text \<open>
  Claim C5, as the code has it. No device ignores a key it does not know: the
  options are not decoded without error. For virtio-serial, virtio-fs,
  virtio-blk and usb-mass-storage the error of \<open>FromOptions\<close> is always the
  one of the first key that is not known, with the device name and the key in
  its message, and there is no error when every key is known. virtio-rng
  refuses every option list that is not empty, and its message prints the
  whole list. For virtio-net and virtio-vsock the options before the unknown
  key come first: when one of them has a value that is refused, its error is
  returned; otherwise the error is the one of the unknown key.
\<close>

theorem unknown_keys_are_never_ignored:
  "snd (VirtioSerial_FromOptions serial options) =
     map_option (\<lambda>opt. Errorf (''Unknown option for virtio-serial devices: '' @ key opt))
       (find (\<lambda>opt. key opt \<noteq> ''logFilePath'') options)
   \<and> snd (VirtioFs_FromOptions fs options) =
     map_option (\<lambda>opt. Errorf (''Unknown option for virtio-fs devices: '' @ key opt))
       (find (\<lambda>opt. key opt \<noteq> ''sharedDir'' \<and> key opt \<noteq> ''mountTag'') options)
   \<and> snd (VirtioBlk_FromOptions blk options) =
     map_option (\<lambda>opt. Errorf (''Unknown option for '' @ DevName blk @ '' devices: '' @ key opt))
       (find (\<lambda>opt. key opt \<noteq> ''deviceId'' \<and> key opt \<noteq> ''path'') options)
   \<and> snd (FromOptions (DevUSBMassStorage usb) options) =
     map_option (\<lambda>opt. Errorf (''Unknown option for '' @ DevName usb @ '' devices: '' @ key opt))
       (find (\<lambda>opt. key opt \<noteq> ''path'') options)
   \<and> snd (VirtioRng_FromOptions rng options) =
     (if options = [] then None
      else Some (Errorf (''Unknown options for virtio-rng devices: '' @ fmt_options options)))
   \<and> (key opt \<noteq> ''nat'' \<and> key opt \<noteq> ''mac'' \<and> key opt \<noteq> ''fd'' \<longrightarrow>
       snd (VirtioNet_FromOptions net (pre @ opt # post)) =
         (case snd (VirtioNet_options net pre) of
            Some err \<Rightarrow> Some err
          | None \<Rightarrow> Some (Errorf (''Unknown option for virtio-net devices: '' @ key opt))))
   \<and> (key opt \<noteq> ''socketURL'' \<and> key opt \<noteq> ''port'' \<and> key opt \<noteq> ''listen''
        \<and> key opt \<noteq> ''connect'' \<longrightarrow>
       snd (VirtioVsock_FromOptions vsock (pre @ opt # post)) =
         (case snd (VirtioVsock_FromOptions vsock pre) of
            Some err \<Rightarrow> Some err
          | None \<Rightarrow> Some (Errorf (''Unknown option for virtio-vsock devices: '' @ key opt))))"
proof (intro conjI impI)
  show "snd (FromOptions (DevUSBMassStorage usb) options) =
     map_option (\<lambda>opt. Errorf (''Unknown option for '' @ DevName usb @ '' devices: '' @ key opt))
       (find (\<lambda>opt. key opt \<noteq> ''path'') options)"
    by (simp add: StorageConfig_FromOptions_error)
  show "snd (VirtioRng_FromOptions rng options) =
     (if options = [] then None
      else Some (Errorf (''Unknown options for virtio-rng devices: '' @ fmt_options options)))"
    by (simp add: VirtioRng_FromOptions_def)
qed (simp_all add: VirtioSerial_FromOptions_error VirtioFs_FromOptions_error
    VirtioBlk_FromOptions_error VirtioNet_unknown VirtioVsock_unknown)

theorem unknown_keys_witness:
  "snd (VirtioNet_FromOptions \<lparr>Nat = False, MacAddress = [], Socket = None\<rparr>
        ([\<lparr>key = ''nat'', value = []\<rparr>] @ \<lparr>key = ''bogus'', value = ''1''\<rparr> # [])) =
     Some (Errorf ''Unknown option for virtio-net devices: bogus'')
   \<and> snd (VirtioVsock_FromOptions \<lparr>Port = 0, SocketURL = [], Listen = False\<rparr>
        ([\<lparr>key = ''listen'', value = []\<rparr>] @ \<lparr>key = ''bogus'', value = ''1''\<rparr> # [])) =
     Some (Errorf ''Unknown option for virtio-vsock devices: bogus'')
   \<and> snd (VirtioSerial_FromOptions \<lparr>LogFile = []\<rparr>
        [\<lparr>key = ''logFilePath'', value = ''/l''\<rparr>, \<lparr>key = ''bogus'', value = ''1''\<rparr>]) =
     Some (Errorf ''Unknown option for virtio-serial devices: bogus'')"
  using unknown_keys_are_never_ignored
    [where opt = "\<lparr>key = ''bogus'', value = ''1''\<rparr>"
       and net = "\<lparr>Nat = False, MacAddress = [], Socket = None\<rparr>"
       and vsock = "\<lparr>Port = 0, SocketURL = [], Listen = False\<rparr>"
       and serial = "\<lparr>LogFile = []\<rparr>"
       and options = "[\<lparr>key = ''logFilePath'', value = ''/l''\<rparr>, \<lparr>key = ''bogus'', value = ''1''\<rparr>]"
       and pre = "[\<lparr>key = ''nat'', value = []\<rparr>]" and post = "[]"]
    unknown_keys_are_never_ignored
    [where opt = "\<lparr>key = ''bogus'', value = ''1''\<rparr>"
       and vsock = "\<lparr>Port = 0, SocketURL = [], Listen = False\<rparr>"
       and pre = "[\<lparr>key = ''listen'', value = []\<rparr>]" and post = "[]"]
  by (simp add: VirtioVsock_FromOptions_def)

text \<open>
  The error is not always the one of the unknown key: in
  \<open>virtio-vsock,port=x,bogus\<close> the value of \<open>port\<close> is refused first.
\<close>

theorem invalid_value_before_unknown_key:
  "deviceFromCmdLine ''virtio-vsock,port=x,bogus'' = Inl (NumError ''Atoi'' ''x'' ErrSyntax)"
proof -
  have "Atoi ''x'' = Inl (NumError ''Atoi'' ''x'' ErrSyntax)"
    by (simp add: Atoi_def)
  then show ?thesis
    by (simp add: deviceFromCmdLine_def Split_def strToOption_def SplitN_def
        VirtioVsock_FromOptions_def)
qed

end
